theory Spec2Isabelle
  imports Main
begin

section \<open>Failures\<close>

text \<open>
  Modelled from the spec: the macros \<^verbatim>\<open>TORCH_INTERNAL_ASSERT\<close> and \<^verbatim>\<open>TORCH_CHECK\<close>
  (c10/util/Exception.h is not among the sources). Both abort the running operation; the
  model returns the failure as a value. \<open>InternalAssertFailed msg k\<close> is
  \<^verbatim>\<open>TORCH_INTERNAL_ASSERT(false, msg, k)\<close>, with \<open>k\<close> the numeric kind that the
  message reports (if any); \<open>CheckFailed\<close> is a \<^verbatim>\<open>TORCH_CHECK\<close> whose condition is
  false. \<open>EmptyOptionalAccess\<close> stands for \<^verbatim>\<open>opt->field\<close> on an optional that holds
  nothing, where the source has no defined result.
\<close>

datatype error =
    InternalAssertFailed string "int option"
  | CheckFailed
  | EmptyOptionalAccess

section \<open>Shapes, view descriptors and IR values\<close>

text \<open>
  Modelled from the spec: the declarations of lazy_view.h (\<^verbatim>\<open>Shape\<close>, \<^verbatim>\<open>ViewInfo\<close>,
  \<^verbatim>\<open>SelectInfo\<close>, \<^verbatim>\<open>AsStridedInfo\<close>, \<^verbatim>\<open>DiagonalInfo\<close>, \<^verbatim>\<open>Alias\<close>, \<^verbatim>\<open>LazyView\<close>) are
  not among the sources. The fields below are the ones lazy_view.cpp reads and writes.
  Only the sizes of a shape are used there.
\<close>

datatype Shape = Shape (sizes: "int list")


text \<open>
  The ten kinds of the spec's table. A C++ enumeration can also hold a value that is none
  of its enumerators: \<open>kOther n\<close> is such a value, \<open>n\<close> being what \<^verbatim>\<open>GetEnumValue\<close>
  gives for it. It is what the \<^verbatim>\<open>default:\<close> branches of the two dispatches receive.
\<close>

datatype Type =
    kSelect | kNarrow | kNoOp | kPermute | kReshape | kResize
  | kSqueeze | kUnsqueeze | kAsStrided | kDiagonal
  | kOther int

datatype SelectInfo =
  SelectInfo (sel_dim: int) (sel_start: int) (sel_end: int) (sel_stride: int)

datatype AsStridedInfo =
  AsStridedInfo (as_stride: "int list") (as_offset: int)

datatype DiagonalInfo =
  DiagonalInfo (dg_offset: int) (dg_dim1: int) (dg_dim2: int)

record ViewInfo =
  view_type :: Type
  shape :: Shape
  indices :: "int list"
  source_shape :: Shape
  permutation :: "int list"
  select :: "SelectInfo option"
  as_strided :: "AsStridedInfo option"
  diagonal :: "DiagonalInfo option"
  squeeze_index :: int

text \<open>
  Modelled from the spec: the node classes and \<^verbatim>\<open>ReuseOrMakeNode\<close> (``build or reuse a
  node representing operation O applied to operands''; only the headers of
  \<^verbatim>\<open>SelectViewUpdate\<close> and \<^verbatim>\<open>AsStridedViewUpdate\<close> are among the sources). A value is
  the term of the operation that produces it: the node class with its constructor
  arguments, operands first. A reused node and a new one with the same arguments are the
  same term. \<open>Leaf n\<close> is a value that comes from outside (device data, the result of a
  kernel); \<open>NullValue\<close> is the default-constructed \<^verbatim>\<open>Value\<close>, which holds no node.
\<close>

datatype Value =
    NullValue
  | Leaf nat
  | Select Value int int int int
  | Narrow Value "int list" "int list"
  | Permute Value "int list"
  | View Value "int list"
  | Resize Value "int list"
  | Squeeze Value int
  | Unsqueeze Value int
  | AsStrided Value "int list" "int list" int
  | Diagonal Value int int int
  | SelectViewUpdate Value Value int int int int
  | NarrowViewUpdate Value Value "int list"
  | AsStridedViewUpdate Value Value "int list" "int list" int
  | DiagonalViewUpdate Value Value int int int

text \<open>
  Modelled from the spec: \<^verbatim>\<open>InversePermutation\<close> (permutation_util.h is not among the
  sources), ``inverse permutation'': position \<open>j\<close> of the result is the place where
  \<open>j\<close> stands in the argument.
\<close>

fun position_of :: "int \<Rightarrow> int list \<Rightarrow> nat" where
  "position_of j [] = 0"
| "position_of j (x # xs) = (if x = j then 0 else Suc (position_of j xs))"

definition InversePermutation :: "int list \<Rightarrow> int list" where
  "InversePermutation p = map (\<lambda>j. int (position_of (int j) p)) [0..<length p]"

section \<open>Forward application of one descriptor\<close>

definition ApplyViewInfo :: "Value \<Rightarrow> ViewInfo \<Rightarrow> error + Value" where
  "ApplyViewInfo ir_value view_info =
     (case view_type view_info of
        kSelect \<Rightarrow>
          (case select view_info of
             None \<Rightarrow> Inl EmptyOptionalAccess
           | Some s \<Rightarrow>
               Inr (Select ir_value (sel_dim s) (sel_start s) (sel_end s) (sel_stride s)))
      | kNarrow \<Rightarrow> Inr (Narrow ir_value (indices view_info) (sizes (shape view_info)))
      | kNoOp \<Rightarrow> Inr ir_value
      | kPermute \<Rightarrow> Inr (Permute ir_value (permutation view_info))
      | kReshape \<Rightarrow> Inr (View ir_value (sizes (shape view_info)))
      | kResize \<Rightarrow> Inr (Resize ir_value (sizes (shape view_info)))
      | kSqueeze \<Rightarrow> Inr (Squeeze ir_value (squeeze_index view_info))
      | kUnsqueeze \<Rightarrow> Inr (Unsqueeze ir_value (squeeze_index view_info))
      | kAsStrided \<Rightarrow>
          (case as_strided view_info of
             None \<Rightarrow> Inl EmptyOptionalAccess
           | Some s \<Rightarrow>
               Inr (AsStrided ir_value (sizes (shape view_info)) (as_stride s) (as_offset s)))
      | kDiagonal \<Rightarrow>
          (case diagonal view_info of
             None \<Rightarrow> Inl EmptyOptionalAccess
           | Some d \<Rightarrow> Inr (Diagonal ir_value (dg_offset d) (dg_dim1 d) (dg_dim2 d)))
      | kOther n \<Rightarrow> Inl (InternalAssertFailed ''Invalid view type: '' (Some n)))"

section \<open>Replaying one update\<close>

record UpdateData =
  ir_value :: Value
  view_infos :: "ViewInfo list"

text \<open>
  The first loop of \<^verbatim>\<open>ApplyUpdate\<close>: \<open>tmp_values\<close> grows by the forward image of its
  last element, one descriptor at a time.
\<close>

fun forward_values :: "Value list \<Rightarrow> ViewInfo list \<Rightarrow> error + Value list" where
  "forward_values tmp_values [] = Inr tmp_values"
| "forward_values tmp_values (view_info # rest) =
     (case ApplyViewInfo (last tmp_values) view_info of
        Inl e \<Rightarrow> Inl e
      | Inr v \<Rightarrow> forward_values (tmp_values @ [v]) rest)"

text \<open>
  The \<^verbatim>\<open>switch\<close> in the second loop of \<^verbatim>\<open>ApplyUpdate\<close>. \<open>root\<close> is the function's
  parameter \<^verbatim>\<open>ir_value\<close>, \<open>target\<close> is \<^verbatim>\<open>tmp_values[i - 1]\<close>, \<open>result\<close> the running
  result and \<open>view_info\<close> is \<^verbatim>\<open>update_data.view_infos[i - 1]\<close>.
\<close>

definition inverse_step :: "Value \<Rightarrow> Value \<Rightarrow> Value \<Rightarrow> ViewInfo \<Rightarrow> error + Value" where
  "inverse_step root target result view_info =
     (case view_type view_info of
        kSelect \<Rightarrow>
          (case select view_info of
             None \<Rightarrow> Inl EmptyOptionalAccess
           | Some s \<Rightarrow>
               Inr (SelectViewUpdate target result
                      (sel_dim s) (sel_start s) (sel_end s) (sel_stride s)))
      | kNarrow \<Rightarrow> Inr (NarrowViewUpdate target result (indices view_info))
      | kNoOp \<Rightarrow> Inr result
      | kPermute \<Rightarrow> Inr (Permute result (InversePermutation (permutation view_info)))
      | kReshape \<Rightarrow> Inr (View result (sizes (source_shape view_info)))
      | kResize \<Rightarrow> Inr (Resize result (sizes (source_shape view_info)))
      | kSqueeze \<Rightarrow> Inr (Unsqueeze root (squeeze_index view_info))
      | kUnsqueeze \<Rightarrow> Inr (Squeeze root (squeeze_index view_info))
      | kAsStrided \<Rightarrow>
          (case as_strided view_info of
             None \<Rightarrow> Inl EmptyOptionalAccess
           | Some s \<Rightarrow>
               Inr (AsStridedViewUpdate target result
                      (sizes (source_shape view_info)) (as_stride s) (as_offset s)))
      | kDiagonal \<Rightarrow>
          (case diagonal view_info of
             None \<Rightarrow> Inl EmptyOptionalAccess
           | Some d \<Rightarrow>
               Inr (DiagonalViewUpdate target result
                      (dg_offset d) (dg_dim1 d) (dg_dim2 d)))
      | kOther n \<Rightarrow> Inl (InternalAssertFailed ''Invalid view type: '' (Some n)))"

text \<open>
  The second loop, \<^verbatim>\<open>for (i = size; i > 0; --i)\<close>: the counter \<open>Suc j\<close> is \<open>i\<close>, so
  \<open>j\<close> is the index \<open>i - 1\<close>.
\<close>

fun backward_loop ::
  "Value \<Rightarrow> Value list \<Rightarrow> ViewInfo list \<Rightarrow> nat \<Rightarrow> Value \<Rightarrow> error + Value" where
  "backward_loop root tmp_values infos 0 result = Inr result"
| "backward_loop root tmp_values infos (Suc j) result =
     (case inverse_step root (tmp_values ! j) result (infos ! j) of
        Inl e \<Rightarrow> Inl e
      | Inr r \<Rightarrow> backward_loop root tmp_values infos j r)"

definition ApplyUpdate :: "Value \<Rightarrow> UpdateData \<Rightarrow> error + Value" where
  "ApplyUpdate root update_data =
     (case forward_values [root] (view_infos update_data) of
        Inl e \<Rightarrow> Inl e
      | Inr tmp_values \<Rightarrow>
          backward_loop root tmp_values (view_infos update_data)
            (length (view_infos update_data)) (ir_value update_data))"

section \<open>Constructing a descriptor\<close>

text \<open>
  The six constructors of \<^verbatim>\<open>ViewInfo\<close>. A constructor sets some fields and leaves the
  others as the class declaration initialises them: an empty vector, an optional holding
  nothing and, for \<open>squeeze_index\<close>, a value \<open>sqi0\<close> that the absent declaration
  decides and that is a parameter here.
\<close>

definition ViewInfo_fields :: "int \<Rightarrow> Type \<Rightarrow> Shape \<Rightarrow> Shape \<Rightarrow> ViewInfo" where
  "ViewInfo_fields sqi0 vt sh src =
     \<lparr>view_type = vt, shape = sh, indices = [], source_shape = src, permutation = [],
      select = None, as_strided = None, diagonal = None, squeeze_index = sqi0\<rparr>"


text \<open>\<^verbatim>\<open>ViewInfo(Type, Shape, Shape, int64_t sqi)\<close>.\<close>

definition ViewInfo_squeeze :: "Type \<Rightarrow> Shape \<Rightarrow> Shape \<Rightarrow> int \<Rightarrow> error + ViewInfo" where
  "ViewInfo_squeeze vt sh src sqi =
     (if vt = kSqueeze then Inr (ViewInfo_fields sqi vt sh src) else Inl CheckFailed)"





section \<open>The alias\<close>

text \<open>
  Modelled from the spec: the counter \<open>generation\<close> (the member \<^verbatim>\<open>generation_\<close>) is the
  spec's ``monotonically increasing counter'', a natural number (its C++ type is in the
  absent lazy_view.h). The members \<^verbatim>\<open>root_ir_value_\<close> and \<^verbatim>\<open>updates_\<close> lose their
  trailing underscore.
\<close>

record Alias =
  root_ir_value :: Value
  updates :: "UpdateData list"
  generation :: nat

text \<open>
  Modelled from the spec: \<^verbatim>\<open>operator==\<close> on descriptors (lazy_view.h), ``equality is
  structural''; two chains are equal when they have the same descriptors in the same order.
\<close>

definition view_infos_equal :: "ViewInfo list \<Rightarrow> ViewInfo list \<Rightarrow> bool" where
  "view_infos_equal xs ys = (xs = ys)"

definition Alias_Update :: "Alias \<Rightarrow> Value \<Rightarrow> ViewInfo list \<Rightarrow> Alias" where
  "Alias_Update a v infos =
     (if updates a \<noteq> [] \<and> view_infos_equal (view_infos (last (updates a))) infos
      then a\<lparr>updates := butlast (updates a) @ [(last (updates a))\<lparr>ir_value := v\<rparr>],
             generation := generation a + 1\<rparr>
      else a\<lparr>updates := updates a @ [\<lparr>ir_value = v, view_infos = infos\<rparr>],
             generation := generation a + 1\<rparr>)"

text \<open>
  The loop of \<^verbatim>\<open>SyncUpdateOperations\<close>. It assigns \<open>root_ir_value\<close> after every
  update, so a failure leaves the root of the updates replayed so far: the loop returns
  the failure (if any) together with the root it has reached.
\<close>

fun replay :: "Value \<Rightarrow> UpdateData list \<Rightarrow> error option \<times> Value" where
  "replay root [] = (None, root)"
| "replay root (update_data # rest) =
     (case ApplyUpdate root update_data of
        Inl e \<Rightarrow> (Some e, root)
      | Inr root' \<Rightarrow> replay root' rest)"

definition SyncUpdateOperations :: "Alias \<Rightarrow> (error + Value) \<times> Alias" where
  "SyncUpdateOperations a =
     (case replay (root_ir_value a) (updates a) of
        (Some e, root) \<Rightarrow> (Inl e, a\<lparr>root_ir_value := root\<rparr>)
      | (None, root) \<Rightarrow> (Inr root, a\<lparr>root_ir_value := root, updates := []\<rparr>))"

section \<open>Views\<close>

text \<open>
  A view holds a \<^verbatim>\<open>shared_ptr<Alias>\<close>. The aliases live in a store, and a view holds
  the address of its alias; views with the same address share the alias. The fields are
  those of the class with the prefix \<open>lv\<close> in place of the trailing underscore:
  \<open>lv_generation\<close> is the generation that the view has cached.
\<close>

type_synonym store = "nat \<Rightarrow> Alias"

record LazyView =
  lv_view_infos :: "ViewInfo list"
  lv_shape :: Shape
  lv_alias :: nat
  lv_ir_value :: Value
  lv_generation :: nat

text \<open>
  The two constructors. They leave \<open>lv_ir_value\<close> (the cached value) default-constructed, and the cached
  generation as the absent class declaration initialises it: the parameter \<open>gen0\<close>.
\<close>

definition LazyView_single :: "nat \<Rightarrow> Shape \<Rightarrow> nat \<Rightarrow> ViewInfo \<Rightarrow> LazyView" where
  "LazyView_single gen0 sh alias view_info =
     \<lparr>lv_view_infos = [] @ [view_info], lv_shape = sh, lv_alias = alias,
      lv_ir_value = NullValue, lv_generation = gen0\<rparr>"

definition LazyView_chain :: "nat \<Rightarrow> Shape \<Rightarrow> nat \<Rightarrow> ViewInfo list \<Rightarrow> LazyView" where
  "LazyView_chain gen0 sh alias infos =
     \<lparr>lv_view_infos = infos, lv_shape = sh, lv_alias = alias,
      lv_ir_value = NullValue, lv_generation = gen0\<rparr>"

definition LazyView_Update :: "store \<Rightarrow> LazyView \<Rightarrow> Value \<Rightarrow> store" where
  "LazyView_Update h v val =
     h(lv_alias v := Alias_Update (h (lv_alias v)) val (lv_view_infos v))"

definition CreateSubView :: "nat \<Rightarrow> LazyView \<Rightarrow> Shape \<Rightarrow> ViewInfo \<Rightarrow> LazyView" where
  "CreateSubView gen0 v sh view_info =
     LazyView_chain gen0 sh (lv_alias v) (lv_view_infos v @ [view_info])"

text \<open>
  Modelled from the spec: \<^verbatim>\<open>IsUpToDate\<close> (declared in the absent lazy_view.h), ``a View
  is up-to-date iff \<open>cached_generation == alias.generation\<close>''.
\<close>

definition IsUpToDate :: "store \<Rightarrow> LazyView \<Rightarrow> bool" where
  "IsUpToDate h v = (lv_generation v = generation (h (lv_alias v)))"

text \<open>The loop of \<^verbatim>\<open>GetViewIrNode\<close> over the view's own chain.\<close>

fun apply_view_infos :: "Value \<Rightarrow> ViewInfo list \<Rightarrow> error + Value" where
  "apply_view_infos update [] = Inr update"
| "apply_view_infos update (view_info # rest) =
     (case ApplyViewInfo update view_info of
        Inl e \<Rightarrow> Inl e
      | Inr update' \<Rightarrow> apply_view_infos update' rest)"

text \<open>
  \<^verbatim>\<open>GetViewIrNode\<close> (the spec's \<open>Resolve\<close>) returns its result, the view and the store
  as they are afterwards. A failure propagates out of the function and keeps what the
  alias has done until then.
\<close>

definition GetViewIrNode :: "store \<Rightarrow> LazyView \<Rightarrow> (error + Value \<times> bool) \<times> LazyView \<times> store" where
  "GetViewIrNode h v =
     (if IsUpToDate h v then (Inr (lv_ir_value v, False), v, h)
      else
        (case SyncUpdateOperations (h (lv_alias v)) of
           (Inl e, a') \<Rightarrow> (Inl e, v, h(lv_alias v := a'))
         | (Inr update, a') \<Rightarrow>
             (case apply_view_infos update (lv_view_infos v) of
                Inl e \<Rightarrow> (Inl e, v, h(lv_alias v := a'))
              | Inr r \<Rightarrow>
                  (Inr (r, True),
                   v\<lparr>lv_ir_value := r, lv_generation := generation a'\<rparr>,
                   h(lv_alias v := a')))))"

section \<open>Scalar nodes\<close>








section \<open>Descriptors that the dispatches accept\<close>

text \<open>
  A descriptor of the spec's table: one of the ten kinds, holding the payload that the two
  dispatches read for that kind.
\<close>

definition supported :: "ViewInfo \<Rightarrow> bool" where
  "supported view_info =
     (case view_type view_info of
        kSelect \<Rightarrow> select view_info \<noteq> None
      | kAsStrided \<Rightarrow> as_strided view_info \<noteq> None
      | kDiagonal \<Rightarrow> diagonal view_info \<noteq> None
      | kOther n \<Rightarrow> False
      | _ \<Rightarrow> True)"

definition supported_updates :: "UpdateData list \<Rightarrow> bool" where
  "supported_updates us = list_all (\<lambda>u. list_all supported (view_infos u)) us"


text \<open>
  The spec's reading of a replay, to compare with \<open>replay\<close>: a left fold over the queue
  from its oldest entry, each update applied to the root that the one before it produced.
\<close>

definition fold_updates :: "Value \<Rightarrow> UpdateData list \<Rightarrow> error + Value" where
  "fold_updates root us =
     foldl (\<lambda>acc u. case acc of Inl e \<Rightarrow> Inl e | Inr r \<Rightarrow> ApplyUpdate r u) (Inr root) us"

section \<open>Example data\<close>

text \<open>
  The slices of the spec's examples over a root of shape \<open>[10]\<close>, as the constructor for
  \<^verbatim>\<open>SelectInfo\<close> payloads builds them, and a slice \<open>[1, 3)\<close> of the slice \<open>[0, 5)\<close>.
\<close>

definition select_2_5 :: ViewInfo where
  "select_2_5 =
     (ViewInfo_fields 0 kSelect (Shape [3]) (Shape [10]))\<lparr>select := Some (SelectInfo 0 2 5 1)\<rparr>"

definition select_0_5 :: ViewInfo where
  "select_0_5 =
     (ViewInfo_fields 0 kSelect (Shape [5]) (Shape [10]))\<lparr>select := Some (SelectInfo 0 0 5 1)\<rparr>"

definition select_5_10 :: ViewInfo where
  "select_5_10 =
     (ViewInfo_fields 0 kSelect (Shape [5]) (Shape [10]))\<lparr>select := Some (SelectInfo 0 5 10 1)\<rparr>"

definition select_1_3 :: ViewInfo where
  "select_1_3 =
     (ViewInfo_fields 0 kSelect (Shape [2]) (Shape [5]))\<lparr>select := Some (SelectInfo 0 1 3 1)\<rparr>"

text \<open>
  A squeeze of axis 0 of a root of shape \<open>[1, 3]\<close>, as \<open>ViewInfo_squeeze\<close> builds it, a
  transposition of a \<open>[2, 3]\<close> value, and a descriptor whose kind is none of the ten,
  built by the constructor that checks nothing.
\<close>

definition squeeze_0 :: ViewInfo where
  "squeeze_0 = ViewInfo_fields 0 kSqueeze (Shape [3]) (Shape [1, 3])"

definition permute_10 :: ViewInfo where
  "permute_10 =
     (ViewInfo_fields 0 kPermute (Shape [3, 2]) (Shape [2, 3]))\<lparr>permutation := [1, 0]\<rparr>"


text \<open>
  An alias whose root is the outside value \<open>Leaf 0\<close>: with an empty queue, and after the
  two writes \<open>A.Update(Leaf 1)\<close>, \<open>B.Update(Leaf 2)\<close> of the spec's example of two
  views. \<open>synced_root\<close> is the root that replaying these two writes gives, and
  \<open>direct_write\<close> is a write with an empty chain.
\<close>

definition alias0 :: Alias where
  "alias0 = \<lparr>root_ir_value = Leaf 0, updates = [], generation = 0\<rparr>"

definition two_writes :: Alias where
  "two_writes = alias0\<lparr>updates := [\<lparr>ir_value = Leaf 1, view_infos = [select_0_5]\<rparr>,
     \<lparr>ir_value = Leaf 2, view_infos = [select_5_10]\<rparr>], generation := 2\<rparr>"

definition synced_root :: Value where
  "synced_root = SelectViewUpdate (SelectViewUpdate (Leaf 0) (Leaf 1) 0 0 5 1) (Leaf 2) 0 5 10 1"

definition direct_write :: UpdateData where
  "direct_write = \<lparr>ir_value = Leaf 3, view_infos = []\<rparr>"

text \<open>
  Two stores, holding the one or the other alias at every address, and the views \<open>A\<close>
  and \<open>B\<close> of the two slices over the alias at address 0. \<open>view_B\<close> has resolved once,
  over the root \<open>Leaf 0\<close> at generation 0.
\<close>

definition store0 :: store where
  "store0 = (\<lambda>p. alias0)"

definition store2 :: store where
  "store2 = (\<lambda>p. two_writes)"

definition view_A :: LazyView where
  "view_A = LazyView_single 0 (Shape [5]) 0 select_0_5"

definition view_B :: LazyView where
  "view_B =
     (LazyView_single 0 (Shape [5]) 0 select_5_10)\<lparr>lv_ir_value := Select (Leaf 0) 0 5 10 1\<rparr>"


section \<open>Descriptors of the table never fail\<close>

lemma supported_ApplyViewInfo:
  "supported view_info \<Longrightarrow> \<exists>v. ApplyViewInfo x view_info = Inr v"
  by (cases "view_type view_info") (auto simp: supported_def ApplyViewInfo_def)

lemma supported_inverse_step:
  "supported view_info \<Longrightarrow> \<exists>v. inverse_step root target result view_info = Inr v"
  by (cases "view_type view_info") (auto simp: supported_def inverse_step_def)

lemma forward_values_supported:
  "list_all supported infos \<Longrightarrow> \<exists>tmp. forward_values tmp_values infos = Inr tmp"
proof (induction infos arbitrary: tmp_values)
  case Nil
  show ?case by simp
next
  case (Cons view_info rest)
  from Cons.prems have "supported view_info" and rest: "list_all supported rest" by simp_all
  then obtain v where "ApplyViewInfo (last tmp_values) view_info = Inr v"
    using supported_ApplyViewInfo by blast
  with Cons.IH [OF rest] show ?case by simp
qed

lemma backward_loop_supported:
  "\<forall>j<n. supported (infos ! j) \<Longrightarrow> \<exists>r. backward_loop root tmp_values infos n result = Inr r"
proof (induction n arbitrary: result)
  case 0
  show ?case by simp
next
  case (Suc n)
  then have "supported (infos ! n)" by simp
  then obtain r where "inverse_step root (tmp_values ! n) result (infos ! n) = Inr r"
    using supported_inverse_step by blast
  moreover have "\<forall>j<n. supported (infos ! j)" using Suc.prems by simp
  ultimately show ?case using Suc.IH by simp
qed

lemma ApplyUpdate_supported:
  assumes "list_all supported (view_infos u)"
  shows "\<exists>r. ApplyUpdate root u = Inr r"
proof -
  obtain tmp where "forward_values [root] (view_infos u) = Inr tmp"
    using forward_values_supported [OF assms] by blast
  moreover have "\<forall>j<length (view_infos u). supported (view_infos u ! j)"
    using assms by (simp add: list_all_length)
  ultimately show ?thesis
    using backward_loop_supported by (simp add: ApplyUpdate_def)
qed

lemma replay_supported:
  "supported_updates us \<Longrightarrow> \<exists>r. replay root us = (None, r)"
proof (induction us arbitrary: root)
  case Nil
  show ?case by simp
next
  case (Cons u us)
  from Cons.prems have "list_all supported (view_infos u)" and rest: "supported_updates us"
    by (simp_all add: supported_updates_def)
  then obtain r where "ApplyUpdate root u = Inr r"
    using ApplyUpdate_supported by blast
  with Cons.IH [OF rest] show ?case by simp
qed

lemma foldl_failed:
  "foldl (\<lambda>acc u. case acc of Inl e \<Rightarrow> Inl e | Inr r \<Rightarrow> ApplyUpdate r u) (Inl e) us = Inl e"
  by (induction us) simp_all

lemma replay_fold_updates:
  "(replay root us = (None, r)) = (fold_updates root us = Inr r)"
proof (induction us arbitrary: root)
  case Nil
  show ?case by (auto simp: fold_updates_def)
next
  case (Cons u us)
  show ?case
  proof (cases "ApplyUpdate root u")
    case (Inl e)
    then show ?thesis by (simp add: fold_updates_def foldl_failed)
  next
    case (Inr root')
    then show ?thesis using Cons.IH [of root'] by (simp add: fold_updates_def)
  qed
qed

lemma SyncUpdateOperations_generation:
  "generation (snd (SyncUpdateOperations a)) = generation a"
  by (simp add: SyncUpdateOperations_def split: prod.splits option.splits)

lemma apply_view_infos_supported:
  "list_all supported infos \<Longrightarrow> \<exists>v. apply_view_infos x infos = Inr v"
proof (induction infos arbitrary: x)
  case Nil
  show ?case by simp
next
  case (Cons view_info rest)
  from Cons.prems have "supported view_info" and rest: "list_all supported rest" by simp_all
  then obtain v where "ApplyViewInfo x view_info = Inr v"
    using supported_ApplyViewInfo by blast
  with Cons.IH [OF rest] show ?case by simp
qed

section \<open>Replaying the queue\<close>

lemma fold_updates_Nil: "fold_updates root [] = Inr root"
  by (simp add: fold_updates_def)

lemma fold_updates_Cons:
  "fold_updates root (u # us) =
     (case ApplyUpdate root u of Inl e \<Rightarrow> Inl e | Inr root' \<Rightarrow> fold_updates root' us)"
  by (cases "ApplyUpdate root u") (simp_all add: fold_updates_def foldl_failed)

lemma replay_append:
  "replay root pre = (None, r) \<Longrightarrow> replay root (pre @ us) = replay r us"
proof (induction pre arbitrary: root)
  case Nil
  then show ?case by simp
next
  case (Cons u pre)
  then show ?case by (cases "ApplyUpdate root u") simp_all
qed

lemma SyncUpdateOperations_success:
  "replay (root_ir_value a) (updates a) = (None, r) \<Longrightarrow>
     SyncUpdateOperations a = (Inr r, a\<lparr>root_ir_value := r, updates := []\<rparr>)"
  by (simp add: SyncUpdateOperations_def)

lemma SyncUpdateOperations_supported:
  assumes "supported_updates (updates a)"
  shows "\<exists>r. SyncUpdateOperations a = (Inr r, a\<lparr>root_ir_value := r, updates := []\<rparr>)"
proof -
  obtain r where "replay (root_ir_value a) (updates a) = (None, r)"
    using replay_supported [OF assms] by blast
  then show ?thesis using SyncUpdateOperations_success by blast
qed

lemma SyncUpdateOperations_result_generation:
  "SyncUpdateOperations a = (res, a') \<Longrightarrow> generation a' = generation a"
  using SyncUpdateOperations_generation [of a] by simp

lemma supported_updates_Alias_Update:
  assumes "supported_updates (updates a)" and "list_all supported infos"
  shows "supported_updates (updates (Alias_Update a v infos))"
proof (cases "updates a \<noteq> [] \<and> view_infos_equal (view_infos (last (updates a))) infos")
  case True
  have "list_all (\<lambda>u. list_all supported (view_infos u)) (butlast (updates a))"
    using assms(1) by (auto simp: supported_updates_def list_all_iff dest: in_set_butlastD)
  moreover have "list_all supported (view_infos (last (updates a)))"
    using assms(1) True last_in_set [of "updates a"]
    by (auto simp: supported_updates_def list_all_iff)
  ultimately show ?thesis
    using True by (simp add: Alias_Update_def supported_updates_def)
next
  case False
  then show ?thesis
    using assms by (auto simp: Alias_Update_def supported_updates_def)
qed

section \<open>Resolving a view\<close>

lemma GetViewIrNode_fresh:
  "lv_generation v = generation (h (lv_alias v)) \<Longrightarrow>
     GetViewIrNode h v = (Inr (lv_ir_value v, False), v, h)"
  by (simp add: GetViewIrNode_def IsUpToDate_def)

lemma GetViewIrNode_stale:
  assumes "lv_generation v \<noteq> generation (h (lv_alias v))"
    and "SyncUpdateOperations (h (lv_alias v)) = (Inr root, a')"
    and "apply_view_infos root (lv_view_infos v) = Inr x"
  shows "GetViewIrNode h v =
     (Inr (x, True), v\<lparr>lv_ir_value := x, lv_generation := generation (h (lv_alias v))\<rparr>,
      h(lv_alias v := a'))"
  using assms SyncUpdateOperations_result_generation [OF assms(2)]
  by (simp add: GetViewIrNode_def IsUpToDate_def)

lemma GetViewIrNode_stale_supported:
  assumes "lv_generation v \<noteq> generation (h (lv_alias v))"
    and "supported_updates (updates (h (lv_alias v)))"
    and "list_all supported (lv_view_infos v)"
  shows "\<exists>x. fst (GetViewIrNode h v) = Inr (x, True)"
proof -
  obtain r a' where s: "SyncUpdateOperations (h (lv_alias v)) = (Inr r, a')"
    using SyncUpdateOperations_supported [OF assms(2)] by blast
  obtain x where "apply_view_infos r (lv_view_infos v) = Inr x"
    using apply_view_infos_supported [OF assms(3)] by blast
  with GetViewIrNode_stale [of v h r a' x] assms(1) s show ?thesis by simp
qed

lemma GetViewIrNode_stale_never_unchanged:
  "lv_generation v \<noteq> generation (h (lv_alias v)) \<Longrightarrow> fst (GetViewIrNode h v) \<noteq> Inr (x, False)"
  by (simp add: GetViewIrNode_def IsUpToDate_def split: prod.splits sum.splits)

lemma generation_LazyView_Update:
  "generation (LazyView_Update h A val (lv_alias A)) = generation (h (lv_alias A)) + 1"
  by (simp add: LazyView_Update_def Alias_Update_def)

section \<open>How a resolution can stop\<close>












section \<open>Reuse with a test that always aborts\<close>



section \<open>The example data evaluated\<close>

lemmas example_defs =
  select_2_5_def select_0_5_def select_5_10_def squeeze_0_def permute_10_def
  alias0_def store0_def ViewInfo_fields_def

lemma supported_examples:
  "supported select_0_5" "supported select_5_10" "supported select_2_5"
  "supported squeeze_0" "supported permute_10"
  by (simp_all add: supported_def example_defs)

lemma two_writes_replay:
  "replay (Leaf 0) (updates two_writes) = (None, synced_root)"
  by (simp add: two_writes_def synced_root_def ApplyUpdate_def ApplyViewInfo_def
      inverse_step_def example_defs)

lemma two_writes_sync:
  "SyncUpdateOperations two_writes
     = (Inr synced_root, \<lparr>root_ir_value = synced_root, updates = [], generation = 2\<rparr>)"
  using two_writes_replay
  by (simp add: SyncUpdateOperations_def two_writes_def alias0_def)

lemma two_writes_supported: "supported_updates (updates two_writes)"
  by (simp add: supported_updates_def two_writes_def supported_examples alias0_def)

lemma view_A_resolved:
  "GetViewIrNode store2 view_A
     = (Inr (Select synced_root 0 0 5 1, True),
        view_A\<lparr>lv_ir_value := Select synced_root 0 0 5 1, lv_generation := 2\<rparr>,
        store2(0 := \<lparr>root_ir_value = synced_root, updates = [], generation = 2\<rparr>))"
proof -
  have "IsUpToDate store2 view_A = False"
    by (simp add: IsUpToDate_def store2_def view_A_def LazyView_single_def two_writes_def
        alias0_def)
  moreover have "store2 (lv_alias view_A) = two_writes"
    by (simp add: store2_def)
  moreover have "apply_view_infos synced_root (lv_view_infos view_A)
      = Inr (Select synced_root 0 0 5 1)"
    by (simp add: view_A_def LazyView_single_def ApplyViewInfo_def example_defs)
  moreover have "lv_alias view_A = 0"
    by (simp add: view_A_def LazyView_single_def)
  ultimately show ?thesis
    using two_writes_sync by (simp add: GetViewIrNode_def)
qed

section \<open>The claims\<close>

text \<open>
  C1. The claim: in the backward pass of \<^verbatim>\<open>ApplyUpdate\<close> every step, for every kind and
  also for Squeeze and Unsqueeze, applies the descriptor's inverse to the running result of
  the later steps. The code does so for eight kinds, but its Squeeze and Unsqueeze branches
  pass the function's parameter \<^verbatim>\<open>ir_value\<close> (the root) where the other branches pass
  \<^verbatim>\<open>result\<close>. At the squeeze descriptor that the constructor builds, the update value
  \<open>Leaf 1\<close> written through the chain \<open>[squeeze_0]\<close> over the root \<open>Leaf 0\<close> is
  lost: the replay gives the unsqueezed root, and not \<open>Unsqueeze (Leaf 1) 0\<close>. With a
  permutation after the squeeze, the permuted update value computed by the later step is
  lost in the same way.
\<close>

theorem ApplyUpdate_squeeze_loses_update:
  "ViewInfo_squeeze kSqueeze (Shape [3]) (Shape [1, 3]) 0 = Inr squeeze_0
   \<and> ApplyUpdate (Leaf 0) \<lparr>ir_value = Leaf 1, view_infos = [squeeze_0]\<rparr>
       = Inr (Unsqueeze (Leaf 0) 0)
   \<and> ApplyUpdate (Leaf 0) \<lparr>ir_value = Leaf 1, view_infos = [squeeze_0, permute_10]\<rparr>
       = Inr (Unsqueeze (Leaf 0) 0)"
  by (simp add: ApplyUpdate_def ApplyViewInfo_def inverse_step_def ViewInfo_squeeze_def
      example_defs)

text \<open>
  C2. \<^verbatim>\<open>Alias::Update\<close>: when the queue is not empty and the chain of its last entry
  equals the given chain, the value of that entry is replaced in place and the queue keeps
  its length; otherwise the entry \<open>{update_value, transform_chain}\<close> is appended. In both
  cases the generation grows by exactly one, and the root is not touched.
\<close>

theorem Alias_Update_coalesces_or_appends:
  "(updates a \<noteq> [] \<and> view_infos (last (updates a)) = infos \<longrightarrow>
      updates (Alias_Update a v infos)
        = butlast (updates a) @ [(last (updates a))\<lparr>ir_value := v\<rparr>]
      \<and> length (updates (Alias_Update a v infos)) = length (updates a))
   \<and> (\<not> (updates a \<noteq> [] \<and> view_infos (last (updates a)) = infos) \<longrightarrow>
      updates (Alias_Update a v infos) = updates a @ [\<lparr>ir_value = v, view_infos = infos\<rparr>])
   \<and> generation (Alias_Update a v infos) = generation a + 1
   \<and> root_ir_value (Alias_Update a v infos) = root_ir_value a"
  by (auto simp: Alias_Update_def view_infos_equal_def)

theorem Alias_Update_coalesces_or_appends_witness:
  "updates (Alias_Update
      (alias0\<lparr>updates := [\<lparr>ir_value = Leaf 1, view_infos = [select_2_5]\<rparr>]\<rparr>)
      (Leaf 2) [select_2_5])
     = [\<lparr>ir_value = Leaf 2, view_infos = [select_2_5]\<rparr>]
   \<and> updates (Alias_Update
      (alias0\<lparr>updates := [\<lparr>ir_value = Leaf 1, view_infos = [select_0_5]\<rparr>]\<rparr>)
      (Leaf 2) [select_5_10])
     = [\<lparr>ir_value = Leaf 1, view_infos = [select_0_5]\<rparr>,
        \<lparr>ir_value = Leaf 2, view_infos = [select_5_10]\<rparr>]
   \<and> updates (Alias_Update alias0 (Leaf 2) [select_5_10])
     = [\<lparr>ir_value = Leaf 2, view_infos = [select_5_10]\<rparr>]
   \<and> generation (Alias_Update alias0 (Leaf 2) [select_5_10]) = 1"
  using
    Alias_Update_coalesces_or_appends
      [of "alias0\<lparr>updates := [\<lparr>ir_value = Leaf 1, view_infos = [select_2_5]\<rparr>]\<rparr>"
          "[select_2_5]" "Leaf 2"]
    Alias_Update_coalesces_or_appends
      [of "alias0\<lparr>updates := [\<lparr>ir_value = Leaf 1, view_infos = [select_0_5]\<rparr>]\<rparr>"
          "[select_5_10]" "Leaf 2"]
    Alias_Update_coalesces_or_appends [of alias0 "[select_5_10]" "Leaf 2"]
  by (simp add: example_defs)

text \<open>
  C3. \<^verbatim>\<open>Alias::SyncUpdateOperations\<close> replays the queue from its oldest entry, each
  update on the root that the update before it produced (\<open>fold_updates\<close>, whose two
  equations are the last two conjuncts): when that replay gives \<open>r\<close>, the call returns
  \<open>r\<close>, stores it as the root and clears the queue. The replay gives a value whenever the
  pending chains hold descriptors of the table. With nothing pending the call returns the
  root and leaves the alias as it is.
\<close>

theorem SyncUpdateOperations_replays_in_order:
  "(fold_updates (root_ir_value a) (updates a) = Inr r \<longrightarrow>
      SyncUpdateOperations a = (Inr r, a\<lparr>root_ir_value := r, updates := []\<rparr>))
   \<and> (supported_updates (updates a) \<longrightarrow>
        (\<exists>r'. fold_updates (root_ir_value a) (updates a) = Inr r'))
   \<and> (updates a = [] \<longrightarrow> SyncUpdateOperations a = (Inr (root_ir_value a), a))
   \<and> fold_updates root [] = Inr root
   \<and> (ApplyUpdate root u = Inr root' \<longrightarrow> fold_updates root (u # us) = fold_updates root' us)"
proof -
  have "fold_updates (root_ir_value a) (updates a) = Inr r \<longrightarrow>
      SyncUpdateOperations a = (Inr r, a\<lparr>root_ir_value := r, updates := []\<rparr>)"
    using replay_fold_updates SyncUpdateOperations_success by blast
  moreover have "supported_updates (updates a) \<longrightarrow>
        (\<exists>r'. fold_updates (root_ir_value a) (updates a) = Inr r')"
    using replay_supported replay_fold_updates by blast
  moreover have "updates a = [] \<longrightarrow> SyncUpdateOperations a = (Inr (root_ir_value a), a)"
    by (simp add: SyncUpdateOperations_def)
  moreover have "ApplyUpdate root u = Inr root' \<longrightarrow>
      fold_updates root (u # us) = fold_updates root' us"
    by (simp add: fold_updates_Cons)
  ultimately show ?thesis by (simp add: fold_updates_Nil)
qed

theorem SyncUpdateOperations_replays_in_order_witness:
  "supported_updates (updates two_writes)
   \<and> fold_updates (root_ir_value two_writes) (updates two_writes) = Inr synced_root
   \<and> SyncUpdateOperations two_writes
       = (Inr synced_root, \<lparr>root_ir_value = synced_root, updates = [], generation = 2\<rparr>)
   \<and> updates alias0 = []
   \<and> SyncUpdateOperations alias0 = (Inr (Leaf 0), alias0)
   \<and> ApplyUpdate (Leaf 0) \<lparr>ir_value = Leaf 1, view_infos = [select_0_5]\<rparr>
       = Inr (SelectViewUpdate (Leaf 0) (Leaf 1) 0 0 5 1)
   \<and> fold_updates (Leaf 0) (updates two_writes)
       = fold_updates (SelectViewUpdate (Leaf 0) (Leaf 1) 0 0 5 1)
           [\<lparr>ir_value = Leaf 2, view_infos = [select_5_10]\<rparr>]"
proof -
  have f: "fold_updates (root_ir_value two_writes) (updates two_writes) = Inr synced_root"
    using two_writes_replay replay_fold_updates [of "Leaf 0" "updates two_writes" synced_root]
    by (simp add: two_writes_def alias0_def)
  have e: "updates alias0 = []" by (simp add: alias0_def)
  have u: "ApplyUpdate (Leaf 0) \<lparr>ir_value = Leaf 1, view_infos = [select_0_5]\<rparr>
       = Inr (SelectViewUpdate (Leaf 0) (Leaf 1) 0 0 5 1)"
    by (simp add: ApplyUpdate_def ApplyViewInfo_def inverse_step_def example_defs)
  show ?thesis
    using f e u two_writes_supported
      SyncUpdateOperations_replays_in_order
        [of two_writes synced_root "Leaf 0" "\<lparr>ir_value = Leaf 1, view_infos = [select_0_5]\<rparr>"
            "SelectViewUpdate (Leaf 0) (Leaf 1) 0 0 5 1"
            "[\<lparr>ir_value = Leaf 2, view_infos = [select_5_10]\<rparr>]"]
      SyncUpdateOperations_replays_in_order [of alias0]
    by (simp add: two_writes_def alias0_def)
qed

text \<open>
  C4. \<^verbatim>\<open>LazyView::GetViewIrNode\<close>, the spec's \<open>Resolve\<close>. When the cached generation
  equals the generation of the alias, the call returns the cached value with
  \<open>changed = false\<close> and leaves the view and the store as they are. Otherwise it
  synchronises the alias and applies the view's own chain forward from the root that the
  synchronisation returned; when these give \<open>x\<close>, it returns \<open>x\<close> with
  \<open>changed = true\<close>, and the view caches \<open>x\<close> and the generation of the alias. A stale
  view whose alias and chain hold descriptors of the table always resolves.
\<close>

theorem GetViewIrNode_cached_or_resynced:
  "(lv_generation v = generation (h (lv_alias v)) \<longrightarrow>
      GetViewIrNode h v = (Inr (lv_ir_value v, False), v, h))
   \<and> (lv_generation v \<noteq> generation (h (lv_alias v))
        \<and> SyncUpdateOperations (h (lv_alias v)) = (Inr root, a')
        \<and> apply_view_infos root (lv_view_infos v) = Inr x \<longrightarrow>
      GetViewIrNode h v =
        (Inr (x, True),
         v\<lparr>lv_ir_value := x, lv_generation := generation (h (lv_alias v))\<rparr>,
         h(lv_alias v := a')))
   \<and> (lv_generation v \<noteq> generation (h (lv_alias v))
        \<and> supported_updates (updates (h (lv_alias v)))
        \<and> list_all supported (lv_view_infos v) \<longrightarrow>
      (\<exists>y. fst (GetViewIrNode h v) = Inr (y, True)))"
  using GetViewIrNode_fresh GetViewIrNode_stale GetViewIrNode_stale_supported by blast

theorem GetViewIrNode_cached_or_resynced_witness:
  "lv_generation view_A \<noteq> generation (store2 (lv_alias view_A))
   \<and> supported_updates (updates (store2 (lv_alias view_A)))
   \<and> list_all supported (lv_view_infos view_A)
   \<and> GetViewIrNode store2 view_A
     = (Inr (Select synced_root 0 0 5 1, True),
        view_A\<lparr>lv_ir_value := Select synced_root 0 0 5 1, lv_generation := 2\<rparr>,
        store2(0 := \<lparr>root_ir_value = synced_root, updates = [], generation = 2\<rparr>))
   \<and> lv_generation view_B = generation (store0 (lv_alias view_B))
   \<and> GetViewIrNode store0 view_B = (Inr (Select (Leaf 0) 0 5 10 1, False), view_B, store0)"
proof -
  have a: "lv_alias view_A = 0" "lv_generation view_A = 0" "lv_view_infos view_A = [select_0_5]"
    by (simp_all add: view_A_def LazyView_single_def)
  have b: "lv_alias view_B = 0" "lv_generation view_B = 0"
    "lv_ir_value view_B = Select (Leaf 0) 0 5 10 1"
    by (simp_all add: view_B_def LazyView_single_def)
  have g: "generation (store2 0) = 2" "generation (store0 0) = 0" "store2 0 = two_writes"
    by (simp_all add: store2_def store0_def two_writes_def alias0_def)
  have f: "apply_view_infos synced_root [select_0_5] = Inr (Select synced_root 0 0 5 1)"
    by (simp add: ApplyViewInfo_def example_defs)
  show ?thesis
    using a b g f two_writes_supported two_writes_sync
      GetViewIrNode_cached_or_resynced
        [of view_A store2 synced_root
            "\<lparr>root_ir_value = synced_root, updates = [], generation = 2\<rparr>"
            "Select synced_root 0 0 5 1"]
      GetViewIrNode_cached_or_resynced [of view_B store0]
    by (simp add: supported_examples)
qed

text \<open>
  C5. Resolving twice in succession, with no update in between (the second call runs on
  the view and the store that the first call left): when the first call returns the value
  \<open>x\<close>, the second returns the same \<open>x\<close> with \<open>changed = false\<close>, and changes
  nothing.
\<close>

theorem GetViewIrNode_twice_same_value:
  "GetViewIrNode h v = (Inr (x, changed), v', h') \<Longrightarrow>
     GetViewIrNode h' v' = (Inr (x, False), v', h')"
proof (cases "IsUpToDate h v")
  case True
  assume "GetViewIrNode h v = (Inr (x, changed), v', h')"
  with True have "x = lv_ir_value v \<and> v' = v \<and> h' = h"
    by (auto simp: GetViewIrNode_def)
  with True show ?thesis by (simp add: GetViewIrNode_def)
next
  case False
  assume r: "GetViewIrNode h v = (Inr (x, changed), v', h')"
  obtain res a' where s: "SyncUpdateOperations (h (lv_alias v)) = (res, a')"
    by (cases "SyncUpdateOperations (h (lv_alias v))")
  from r False s have v': "v' = v\<lparr>lv_ir_value := x, lv_generation := generation a'\<rparr>"
    and h': "h' = h(lv_alias v := a')"
    by (auto simp: GetViewIrNode_def split: sum.splits)
  then have "IsUpToDate h' v'" and "lv_ir_value v' = x"
    by (simp_all add: IsUpToDate_def)
  then show ?thesis by (simp add: GetViewIrNode_def)
qed

theorem GetViewIrNode_twice_same_value_witness:
  "GetViewIrNode store2 view_A
     = (Inr (Select synced_root 0 0 5 1, True),
        view_A\<lparr>lv_ir_value := Select synced_root 0 0 5 1, lv_generation := 2\<rparr>,
        store2(0 := \<lparr>root_ir_value = synced_root, updates = [], generation = 2\<rparr>))
   \<and> GetViewIrNode (store2(0 := \<lparr>root_ir_value = synced_root, updates = [], generation = 2\<rparr>))
        (view_A\<lparr>lv_ir_value := Select synced_root 0 0 5 1, lv_generation := 2\<rparr>)
     = (Inr (Select synced_root 0 0 5 1, False),
        view_A\<lparr>lv_ir_value := Select synced_root 0 0 5 1, lv_generation := 2\<rparr>,
        store2(0 := \<lparr>root_ir_value = synced_root, updates = [], generation = 2\<rparr>))"
  using view_A_resolved GetViewIrNode_twice_same_value [OF view_A_resolved] by simp

text \<open>
  C6. \<^verbatim>\<open>LazyView::CreateSubView\<close> on a view with chain \<open>[P1]\<close> and a descriptor
  \<open>P2\<close>: the new view holds the address of the same alias, its chain is exactly
  \<open>[P1, P2]\<close>, and it has no cached value; the function reads and writes no alias, so
  nothing is resolved at creation. Resolving the new view gives the same result, and leaves
  the same store, as resolving a view built by the constructor from the chain
  \<open>[P1, P2]\<close> over the same alias (whatever shape that view is given).
\<close>

theorem CreateSubView_appends_descriptor:
  "lv_view_infos v = [P1] \<Longrightarrow>
     lv_alias (CreateSubView gen0 v sh P2) = lv_alias v
     \<and> lv_view_infos (CreateSubView gen0 v sh P2) = [P1, P2]
     \<and> lv_ir_value (CreateSubView gen0 v sh P2) = NullValue
     \<and> fst (GetViewIrNode h (CreateSubView gen0 v sh P2))
         = fst (GetViewIrNode h (LazyView_chain gen0 sh' (lv_alias v) [P1, P2]))
     \<and> snd (snd (GetViewIrNode h (CreateSubView gen0 v sh P2)))
         = snd (snd (GetViewIrNode h (LazyView_chain gen0 sh' (lv_alias v) [P1, P2])))"
  by (simp add: CreateSubView_def LazyView_chain_def GetViewIrNode_def IsUpToDate_def
      split: prod.splits sum.splits)

theorem CreateSubView_appends_descriptor_witness:
  "lv_view_infos view_A = [select_0_5]
   \<and> lv_view_infos (CreateSubView 0 view_A (Shape [2]) select_1_3) = [select_0_5, select_1_3]
   \<and> fst (GetViewIrNode store2
        (LazyView_chain 0 (Shape [2]) (lv_alias view_A) [select_0_5, select_1_3]))
       = Inr (Select (Select synced_root 0 0 5 1) 0 1 3 1, True)
   \<and> fst (GetViewIrNode store2 (CreateSubView 0 view_A (Shape [2]) select_1_3))
       = Inr (Select (Select synced_root 0 0 5 1) 0 1 3 1, True)"
proof -
  have a: "lv_view_infos view_A = [select_0_5]"
    by (simp add: view_A_def LazyView_single_def)
  have "store2 0 = two_writes" "generation two_writes = 2"
    by (simp_all add: store2_def two_writes_def)
  moreover have "apply_view_infos synced_root [select_0_5, select_1_3]
      = Inr (Select (Select synced_root 0 0 5 1) 0 1 3 1)"
    by (simp add: ApplyViewInfo_def select_1_3_def example_defs)
  ultimately have
    "fst (GetViewIrNode store2
        (LazyView_chain 0 (Shape [2]) (lv_alias view_A) [select_0_5, select_1_3]))
       = Inr (Select (Select synced_root 0 0 5 1) 0 1 3 1, True)"
    using two_writes_sync
    by (simp add: GetViewIrNode_def IsUpToDate_def LazyView_chain_def view_A_def
        LazyView_single_def)
  then show ?thesis
    using a CreateSubView_appends_descriptor
        [OF a, of 0 "Shape [2]" select_1_3 store2 "Shape [2]"]
    by simp
qed

text \<open>
  C7. Two views \<open>A\<close> and \<open>B\<close> of one alias, \<open>B\<close> fresh. After
  \<^verbatim>\<open>A.Update(val)\<close> the view \<open>B\<close> is no longer up to date, its next
  \<^verbatim>\<open>GetViewIrNode\<close> can not return \<open>changed = false\<close>, and, the pending chains and the
  chains of both views holding descriptors of the table, it returns a value with
  \<open>changed = true\<close>.
\<close>

theorem Update_makes_sibling_stale:
  assumes "lv_alias A = lv_alias B" and "IsUpToDate h B"
  shows "\<not> IsUpToDate (LazyView_Update h A val) B
     \<and> (\<forall>x. fst (GetViewIrNode (LazyView_Update h A val) B) \<noteq> Inr (x, False))
     \<and> (supported_updates (updates (h (lv_alias B))) \<and> list_all supported (lv_view_infos A)
          \<and> list_all supported (lv_view_infos B) \<longrightarrow>
        (\<exists>x. fst (GetViewIrNode (LazyView_Update h A val) B) = Inr (x, True)))"
proof -
  let ?h = "LazyView_Update h A val"
  have stale: "lv_generation B \<noteq> generation (?h (lv_alias B))"
    using assms generation_LazyView_Update [of h A val] by (simp add: IsUpToDate_def)
  then have "\<not> IsUpToDate ?h B" by (simp add: IsUpToDate_def)
  moreover have "\<forall>x. fst (GetViewIrNode ?h B) \<noteq> Inr (x, False)"
    using stale GetViewIrNode_stale_never_unchanged by blast
  moreover have "\<exists>x. fst (GetViewIrNode ?h B) = Inr (x, True)"
    if s: "supported_updates (updates (h (lv_alias B)))"
      and a: "list_all supported (lv_view_infos A)"
      and b: "list_all supported (lv_view_infos B)"
  proof -
    have "supported_updates (updates (?h (lv_alias B)))"
      using supported_updates_Alias_Update [OF s a] assms(1)
      by (simp add: LazyView_Update_def)
    then show ?thesis using GetViewIrNode_stale_supported [of B ?h] stale b by blast
  qed
  ultimately show ?thesis by blast
qed

theorem Update_makes_sibling_stale_witness:
  "lv_alias view_A = lv_alias view_B \<and> IsUpToDate store0 view_B
   \<and> supported_updates (updates (store0 (lv_alias view_B)))
   \<and> list_all supported (lv_view_infos view_A) \<and> list_all supported (lv_view_infos view_B)
   \<and> fst (GetViewIrNode (LazyView_Update store0 view_A (Leaf 1)) view_B)
       = Inr (Select (SelectViewUpdate (Leaf 0) (Leaf 1) 0 0 5 1) 0 5 10 1, True)"
proof -
  have a: "lv_alias view_A = lv_alias view_B"
    by (simp add: view_A_def view_B_def LazyView_single_def)
  have b: "IsUpToDate store0 view_B"
    by (simp add: IsUpToDate_def view_B_def LazyView_single_def store0_def alias0_def)
  have s: "supported_updates (updates (store0 (lv_alias view_B)))"
    "list_all supported (lv_view_infos view_A)" "list_all supported (lv_view_infos view_B)"
    by (simp_all add: supported_updates_def store0_def alias0_def view_A_def view_B_def
        LazyView_single_def supported_examples)
  have "fst (GetViewIrNode (LazyView_Update store0 view_A (Leaf 1)) view_B)
       = Inr (Select (SelectViewUpdate (Leaf 0) (Leaf 1) 0 0 5 1) 0 5 10 1, True)"
    by (simp add: GetViewIrNode_def IsUpToDate_def LazyView_Update_def Alias_Update_def
        SyncUpdateOperations_def ApplyUpdate_def ApplyViewInfo_def inverse_step_def
        view_A_def view_B_def LazyView_single_def example_defs)
  then show ?thesis
    using a b s Update_makes_sibling_stale [OF a b, of "Leaf 1"] by simp
qed




text \<open>
  C9. An update whose chain is empty: \<^verbatim>\<open>ApplyUpdate\<close> returns the update's value
  whatever the root is, so the replay goes on from that value alone, after any updates
  before it in the queue; when it is the last entry of the queue,
  \<^verbatim>\<open>SyncUpdateOperations\<close> returns and stores exactly that value.
\<close>

theorem empty_chain_update_replaces_root:
  "view_infos u = [] \<Longrightarrow>
     ApplyUpdate root u = Inr (ir_value u)
     \<and> replay root (u # rest) = replay (ir_value u) rest
     \<and> (replay root pre = (None, r) \<longrightarrow>
          replay root (pre @ u # rest) = replay (ir_value u) rest)
     \<and> (replay (root_ir_value a) pre = (None, r) \<and> updates a = pre @ [u] \<longrightarrow>
          SyncUpdateOperations a
            = (Inr (ir_value u), a\<lparr>root_ir_value := ir_value u, updates := []\<rparr>))"
proof -
  assume e: "view_infos u = []"
  then have 1: "ApplyUpdate root' u = Inr (ir_value u)" for root'
    by (simp add: ApplyUpdate_def)
  then have 2: "replay root' (u # rest') = replay (ir_value u) rest'" for root' rest'
    by simp
  have 3: "replay root pre = (None, r) \<longrightarrow>
          replay root (pre @ u # rest) = replay (ir_value u) rest"
    using replay_append [of root pre r "u # rest"] 2 by simp
  have 4: "replay (root_ir_value a) pre = (None, r) \<and> updates a = pre @ [u] \<longrightarrow>
          SyncUpdateOperations a
            = (Inr (ir_value u), a\<lparr>root_ir_value := ir_value u, updates := []\<rparr>)"
    using replay_append [of "root_ir_value a" pre r "[u]"] 2 [of r "[]"]
    by (auto simp: SyncUpdateOperations_def)
  show ?thesis using 1 2 3 4 by blast
qed

theorem empty_chain_update_replaces_root_witness:
  "view_infos direct_write = []
   \<and> ApplyUpdate (Leaf 0) direct_write = Inr (Leaf 3)
   \<and> replay (Leaf 0) (updates two_writes) = (None, synced_root)
   \<and> SyncUpdateOperations (two_writes\<lparr>updates := updates two_writes @ [direct_write]\<rparr>)
       = (Inr (Leaf 3), two_writes\<lparr>root_ir_value := Leaf 3, updates := []\<rparr>)"
proof -
  have e: "view_infos direct_write = []" by (simp add: direct_write_def)
  have t: "root_ir_value two_writes = Leaf 0"
    by (simp add: two_writes_def alias0_def)
  show ?thesis
    using e t two_writes_replay
      empty_chain_update_replaces_root
        [OF e, of "Leaf 0" "[]" "updates two_writes" synced_root
            "two_writes\<lparr>updates := updates two_writes @ [direct_write]\<rparr>"]
    by (simp add: direct_write_def)
qed



end
